theory Spec2Isabelle
  imports Complex_Main
begin

section \<open>Floating-point primitives\<close>

text \<open>
  The ray tracer of \<^verbatim>\<open>src/main.cpp\<close> computes in the C++ type \<^verbatim>\<open>float\<close>. The
  primitive operations on that type are not part of the program, so the embedding takes
  them as a parameter: a record of operations on a carrier \<open>'f\<close>. Every function of the
  program is translated over an arbitrary such record, and a theorem stated for every
  record holds for whichever arithmetic the compiler provides, IEEE 754 binary32 with its
  rounding, infinities and NaN included.

  \<^item> \<open>flit r\<close> is the \<^verbatim>\<open>float\<close> a numeric literal or an \<^verbatim>\<open>int\<close> constant of value \<open>r\<close>
    converts to (\<^verbatim>\<open>0.2\<close>, \<^verbatim>\<open>1e-3\<close>, \<^verbatim>\<open>2.f\<close>, \<^verbatim>\<open>255\<close>, ...);
  \<^item> \<open>flt a b\<close> is the comparison \<^verbatim>\<open>a < b\<close>; the source's \<^verbatim>\<open>a > b\<close> is \<open>flt b a\<close>;
  \<^item> \<open>flt_max\<close> is \<^verbatim>\<open>numeric_limits<float>::max()\<close>;
  \<^item> \<open>ftoi\<close> is the truncating conversion of a \<^verbatim>\<open>float\<close> to an integer, the first half of
    the cast \<^verbatim>\<open>(char)\<close>.
\<close>

record 'f float_ops =
  flit :: "real \<Rightarrow> 'f"
  fadd :: "'f \<Rightarrow> 'f \<Rightarrow> 'f"
  fsub :: "'f \<Rightarrow> 'f \<Rightarrow> 'f"
  fmul :: "'f \<Rightarrow> 'f \<Rightarrow> 'f"
  fdiv :: "'f \<Rightarrow> 'f \<Rightarrow> 'f"
  fneg :: "'f \<Rightarrow> 'f"
  fsqrt :: "'f \<Rightarrow> 'f"
  fpow :: "'f \<Rightarrow> 'f \<Rightarrow> 'f"
  flt :: "'f \<Rightarrow> 'f \<Rightarrow> bool"
  flt_max :: "'f"
  ftoi :: "'f \<Rightarrow> int"

text \<open>
  \<^verbatim>\<open>std::max(a, b)\<close> is \<^verbatim>\<open>(a < b) ? b : a\<close> and \<^verbatim>\<open>std::min(a, b)\<close> is
  \<^verbatim>\<open>(b < a) ? b : a\<close>.
\<close>

definition fmax :: "'f float_ops \<Rightarrow> 'f \<Rightarrow> 'f \<Rightarrow> 'f" where
  "fmax A a b = (if flt A a b then b else a)"

definition fmin :: "'f float_ops \<Rightarrow> 'f \<Rightarrow> 'f \<Rightarrow> 'f" where
  "fmin A a b = (if flt A b a then b else a)"

text \<open>
  The one fact about the comparison that the scan for the nearest sphere relies on:
  \<^verbatim>\<open><\<close> is irreflexive and transitive. It holds for IEEE 754 (a NaN compares false with
  everything) and for the reals.
\<close>

definition flt_order :: "'f float_ops \<Rightarrow> bool" where
  "flt_order A \<longleftrightarrow>
     (\<forall>a. \<not> flt A a a) \<and> (\<forall>a b c. flt A a b \<longrightarrow> flt A b c \<longrightarrow> flt A a c)"

section \<open>Vec3f\<close>

text \<open>\<^verbatim>\<open>struct Vec3f { float x, y, z; ... }\<close>; the fields are \<open>vx\<close>, \<open>vy\<close>, \<open>vz\<close> here.\<close>

datatype 'f Vec3f = Vec3f (vx: 'f) (vy: 'f) (vz: 'f)

definition vadd :: "'f float_ops \<Rightarrow> 'f Vec3f \<Rightarrow> 'f Vec3f \<Rightarrow> 'f Vec3f" where
  "vadd A u v = Vec3f (fadd A (vx u) (vx v)) (fadd A (vy u) (vy v)) (fadd A (vz u) (vz v))"

definition vsub :: "'f float_ops \<Rightarrow> 'f Vec3f \<Rightarrow> 'f Vec3f \<Rightarrow> 'f Vec3f" where
  "vsub A u v = Vec3f (fsub A (vx u) (vx v)) (fsub A (vy u) (vy v)) (fsub A (vz u) (vz v))"

definition vscale :: "'f float_ops \<Rightarrow> 'f Vec3f \<Rightarrow> 'f \<Rightarrow> 'f Vec3f" where
  "vscale A v k = Vec3f (fmul A (vx v) k) (fmul A (vy v) k) (fmul A (vz v) k)"

definition dot :: "'f float_ops \<Rightarrow> 'f Vec3f \<Rightarrow> 'f Vec3f \<Rightarrow> 'f" where
  "dot A u v =
     fadd A (fadd A (fmul A (vx u) (vx v)) (fmul A (vy u) (vy v))) (fmul A (vz u) (vz v))"

text \<open>
  \<^verbatim>\<open>normalize\<close> has no guard: it divides \<^verbatim>\<open>1.f\<close> by the magnitude whatever that is.
\<close>

definition normalize :: "'f float_ops \<Rightarrow> 'f Vec3f \<Rightarrow> 'f Vec3f" where
  "normalize A v = (let mag = fsqrt A (dot A v v) in vscale A v (fdiv A (flit A 1) mag))"

text \<open>
  Modelled from the spec: the unary minus of \<^verbatim>\<open>Vec3f\<close>. Line 122 of the source calls
  \<^verbatim>\<open>reflect(-light_dir, N)\<close>, and the struct declares no unary \<^verbatim>\<open>operator-\<close>; the
  specification writes \<^verbatim>\<open>reflect(-lightDir, normal)\<close>, the vector negated in each
  component.
\<close>

definition vneg :: "'f float_ops \<Rightarrow> 'f Vec3f \<Rightarrow> 'f Vec3f" where
  "vneg A v = Vec3f (fneg A (vx v)) (fneg A (vy v)) (fneg A (vz v))"

text \<open>The default constructor \<^verbatim>\<open>Vec3f()\<close>.\<close>

definition vzero :: "'f float_ops \<Rightarrow> 'f Vec3f" where
  "vzero A = Vec3f (flit A 0) (flit A 0) (flit A 0)"

section \<open>Light and Sphere\<close>

record 'f Light =
  position :: "'f Vec3f"
  intensity :: "'f"

record 'f Sphere =
  center :: "'f Vec3f"
  radius :: "'f"
  color :: "'f Vec3f"
  specular :: "'f"
  reflective :: "'f"

text \<open>
  \<^verbatim>\<open>bool Sphere::ray_intersect(orig, dir, float &t0)\<close>. The result is \<open>Some t0\<close> where the
  source returns \<^verbatim>\<open>true\<close>, with the value it leaves in \<^verbatim>\<open>t0\<close>, and \<open>None\<close> where it
  returns \<^verbatim>\<open>false\<close>: the only caller reads \<^verbatim>\<open>t0\<close> after \<^verbatim>\<open>true\<close> alone.
\<close>

definition ray_intersect ::
  "'f float_ops \<Rightarrow> 'f Sphere \<Rightarrow> 'f Vec3f \<Rightarrow> 'f Vec3f \<Rightarrow> 'f option" where
  "ray_intersect A s orig dir =
     (let L = vsub A (center s) orig;
          tca = dot A L dir;
          d2 = fsub A (dot A L L) (fmul A tca tca)
      in if flt A (fmul A (radius s) (radius s)) d2 then None
         else
           let thc = fsqrt A (fsub A (fmul A (radius s) (radius s)) d2);
               t0 = fsub A tca thc;
               t1 = fadd A tca thc;
               t = (if flt A t0 (flit A 0) then t1 else t0)
           in if flt A t (flit A 0) then None else Some t)"

text \<open>\<^verbatim>\<open>reflect(I, N)\<close>: the source's \<^verbatim>\<open>I - N * 2.f * I.dot(N)\<close> groups as \<^verbatim>\<open>I - ((N * 2.f) * I.dot(N))\<close>.\<close>

definition reflect :: "'f float_ops \<Rightarrow> 'f Vec3f \<Rightarrow> 'f Vec3f \<Rightarrow> 'f Vec3f" where
  "reflect A I n = vsub A I (vscale A (vscale A n (flit A 2)) (dot A I n))"

section \<open>scene_intersect\<close>

text \<open>
  The five reference parameters \<^verbatim>\<open>hit\<close>, \<^verbatim>\<open>N\<close>, \<^verbatim>\<open>color\<close>, \<^verbatim>\<open>spec\<close> and \<^verbatim>\<open>refl\<close> that
  \<^verbatim>\<open>scene_intersect\<close> writes through. The function is modelled by state passing: it takes
  the values the caller's variables hold before the call and returns the values they hold
  after it, beside the boolean result.
\<close>

record 'f hit_refs =
  o_hit :: "'f Vec3f"
  o_N :: "'f Vec3f"
  o_color :: "'f Vec3f"
  o_spec :: "'f"
  o_refl :: "'f"

text \<open>The five assignments of the loop body, for sphere \<open>s\<close> hit at distance \<open>t\<close>.\<close>

definition hit_data ::
  "'f float_ops \<Rightarrow> 'f Vec3f \<Rightarrow> 'f Vec3f \<Rightarrow> 'f Sphere \<Rightarrow> 'f \<Rightarrow> 'f hit_refs" where
  "hit_data A orig dir s t =
     (let hit = vadd A orig (vscale A dir t)
      in \<lparr>o_hit = hit, o_N = normalize A (vsub A hit (center s)), o_color = color s,
          o_spec = specular s, o_refl = reflective s\<rparr>)"

text \<open>
  One iteration of \<^verbatim>\<open>for (const Sphere &s : spheres)\<close> on the loop state: the local
  \<^verbatim>\<open>dist\<close> and the reference parameters.
\<close>

definition scan_step ::
  "'f float_ops \<Rightarrow> 'f Vec3f \<Rightarrow> 'f Vec3f \<Rightarrow> 'f \<times> 'f hit_refs \<Rightarrow> 'f Sphere \<Rightarrow> 'f \<times> 'f hit_refs"
  where
  "scan_step A orig dir st s =
     (case ray_intersect A s orig dir of
        None \<Rightarrow> st
      | Some t \<Rightarrow> if flt A t (fst st) then (t, hit_data A orig dir s t) else st)"

fun scene_loop ::
  "'f float_ops \<Rightarrow> 'f Vec3f \<Rightarrow> 'f Vec3f \<Rightarrow> 'f Sphere list \<Rightarrow> 'f \<times> 'f hit_refs \<Rightarrow> 'f \<times> 'f hit_refs"
  where
  "scene_loop A orig dir [] st = st"
| "scene_loop A orig dir (s # ss) st = scene_loop A orig dir ss (scan_step A orig dir st s)"

definition scene_intersect ::
  "'f float_ops \<Rightarrow> 'f Vec3f \<Rightarrow> 'f Vec3f \<Rightarrow> 'f Sphere list \<Rightarrow> 'f hit_refs \<Rightarrow> bool \<times> 'f hit_refs"
  where
  "scene_intersect A orig dir spheres refs =
     (let st = scene_loop A orig dir spheres (flt_max A, refs)
      in (flt A (fst st) (flt_max A), snd st))"

section \<open>cast_ray\<close>

text \<open>
  The locals a caller of \<^verbatim>\<open>scene_intersect\<close> passes by reference, as they are before the
  call: the three vectors are default-constructed, and the two \<^verbatim>\<open>float\<close>s are declared
  without an initialiser (\<^verbatim>\<open>float spec, refl;\<close>), so they hold indeterminate values. The
  pair \<open>u\<close> stands for those two values; the model takes them as an input.
\<close>

definition locals :: "'f float_ops \<Rightarrow> 'f \<times> 'f \<Rightarrow> 'f hit_refs" where
  "locals A u =
     \<lparr>o_hit = vzero A, o_N = vzero A, o_color = vzero A, o_spec = fst u, o_refl = snd u\<rparr>"

definition background :: "'f float_ops \<Rightarrow> 'f Vec3f" where
  "background A = Vec3f (flit A (2 / 10)) (flit A (7 / 10)) (flit A (8 / 10))"

text \<open>The direction from the hit point to a light, \<^verbatim>\<open>(light.position - hit).normalize()\<close>.\<close>

definition light_dir :: "'f float_ops \<Rightarrow> 'f Vec3f \<Rightarrow> 'f Light \<Rightarrow> 'f Vec3f" where
  "light_dir A hit l = normalize A (vsub A (position l) hit)"

text \<open>
  The shadow check of one light: the result of \<^verbatim>\<open>scene_intersect\<close> for the ray from
  \<^verbatim>\<open>hit + N*1e-3\<close> towards the light. Only the boolean is used; the five shadow locals are
  written and never read. Two of them, \<^verbatim>\<open>sh_spec\<close> and \<^verbatim>\<open>sh_refl\<close>, are uninitialised
  before the call, like \<^verbatim>\<open>spec\<close> and \<^verbatim>\<open>refl\<close>; the pair \<open>u\<close> stands for their values too.
\<close>

definition shadowed ::
  "'f float_ops \<Rightarrow> 'f \<times> 'f \<Rightarrow> 'f Sphere list \<Rightarrow> 'f hit_refs \<Rightarrow> 'f Light \<Rightarrow> bool" where
  "shadowed A u spheres h l =
     fst (scene_intersect A (vadd A (o_hit h) (vscale A (o_N h) (flit A (1 / 1000))))
            (light_dir A (o_hit h) l) spheres (locals A u))"

text \<open>What an unoccluded light adds to \<^verbatim>\<open>diffuse\<close> and to \<^verbatim>\<open>specular\<close> (lines 121 to 123).\<close>

definition diffuse_term :: "'f float_ops \<Rightarrow> 'f hit_refs \<Rightarrow> 'f Light \<Rightarrow> 'f" where
  "diffuse_term A h l =
     fmul A (intensity l) (fmax A (flit A 0) (dot A (light_dir A (o_hit h) l) (o_N h)))"

definition specular_term :: "'f float_ops \<Rightarrow> 'f Vec3f \<Rightarrow> 'f hit_refs \<Rightarrow> 'f Light \<Rightarrow> 'f" where
  "specular_term A dir h l =
     (let reflect_dir = reflect A (vneg A (light_dir A (o_hit h) l)) (o_N h)
      in fmul A (fpow A (fmax A (flit A 0) (dot A reflect_dir dir)) (o_spec h)) (intensity l))"

text \<open>
  One iteration of \<^verbatim>\<open>for (const Light &light : lights)\<close> on the two accumulators
  \<^verbatim>\<open>diffuse\<close> and \<^verbatim>\<open>specular\<close>; \<^verbatim>\<open>continue\<close> leaves both as they are.
\<close>

definition light_step ::
  "'f float_ops \<Rightarrow> 'f \<times> 'f \<Rightarrow> 'f Sphere list \<Rightarrow> 'f Vec3f \<Rightarrow> 'f hit_refs \<Rightarrow> 'f \<times> 'f \<Rightarrow> 'f Light
     \<Rightarrow> 'f \<times> 'f" where
  "light_step A u spheres dir h acc l =
     (if shadowed A u spheres h l then acc
      else (fadd A (fst acc) (diffuse_term A h l), fadd A (snd acc) (specular_term A dir h l)))"

fun light_loop ::
  "'f float_ops \<Rightarrow> 'f \<times> 'f \<Rightarrow> 'f Sphere list \<Rightarrow> 'f Vec3f \<Rightarrow> 'f hit_refs \<Rightarrow> 'f Light list
     \<Rightarrow> 'f \<times> 'f \<Rightarrow> 'f \<times> 'f" where
  "light_loop A u spheres dir h [] acc = acc"
| "light_loop A u spheres dir h (l # ls) acc =
     light_loop A u spheres dir h ls (light_step A u spheres dir h acc l)"

text \<open>The \<^verbatim>\<open>return\<close> expression of lines 129 to 131.\<close>

definition combine ::
  "'f float_ops \<Rightarrow> 'f hit_refs \<Rightarrow> 'f \<Rightarrow> 'f \<Rightarrow> 'f Vec3f \<Rightarrow> 'f Vec3f" where
  "combine A h diffuse spec_sum reflect_color =
     vadd A
       (vadd A
          (vscale A (vscale A (o_color h) diffuse) (fsub A (flit A 1) (o_refl h)))
          (vscale A (vscale A (Vec3f (flit A 1) (flit A 1) (flit A 1)) spec_sum)
             (flit A (6 / 10))))
       (vscale A reflect_color (o_refl h))"

text \<open>
  \<^verbatim>\<open>cast_ray\<close>, traced. Beside the colour the model returns two counters the source does
  not have: the number of calls of \<^verbatim>\<open>scene_intersect\<close> made (the primary test and one
  shadow test for each light) and the number of nested recursive calls of \<^verbatim>\<open>cast_ray\<close>.
  \<^verbatim>\<open>depth > 4 || !scene_intersect(...)\<close> evaluates its right operand only when the left
  one is false. \<open>ind d\<close> gives the indeterminate contents of the uninitialised \<^verbatim>\<open>float\<close>
  locals of the call at depth \<open>d\<close>. \<^verbatim>\<open>depth\<close> is an \<^verbatim>\<open>int\<close>; \<^verbatim>\<open>depth + 1\<close> is computed
  only when \<^verbatim>\<open>depth \<le> 4\<close>, where it cannot overflow.
\<close>

function cast_ray_traced ::
  "'f float_ops \<Rightarrow> (int \<Rightarrow> 'f \<times> 'f) \<Rightarrow> 'f Vec3f \<Rightarrow> 'f Vec3f \<Rightarrow> 'f Sphere list \<Rightarrow> 'f Light list
     \<Rightarrow> int \<Rightarrow> 'f Vec3f \<times> nat \<times> nat" where
  "cast_ray_traced A ind orig dir spheres lights depth =
     (if depth > 4 then (background A, 0, 0)
      else
        let r = scene_intersect A orig dir spheres (locals A (ind depth)); h = snd r
        in if \<not> fst r then (background A, 1, 0)
           else
             let acc = light_loop A (ind depth) spheres dir h lights (flit A 0, flit A 0);
                 reflect_dir = normalize A (reflect A dir (o_N h));
                 rc = cast_ray_traced A ind
                        (vadd A (o_hit h) (vscale A (o_N h) (flit A (1 / 1000))))
                        reflect_dir spheres lights (depth + 1)
             in (combine A h (fst acc) (snd acc) (fst rc),
                 1 + length lights + fst (snd rc), 1 + snd (snd rc)))"
  by pat_completeness auto
termination
  by (relation "measure (\<lambda>(A, ind, orig, dir, spheres, lights, depth). nat (5 - depth))") auto

declare cast_ray_traced.simps [simp del]

definition cast_ray ::
  "'f float_ops \<Rightarrow> (int \<Rightarrow> 'f \<times> 'f) \<Rightarrow> 'f Vec3f \<Rightarrow> 'f Vec3f \<Rightarrow> 'f Sphere list \<Rightarrow> 'f Light list
     \<Rightarrow> int \<Rightarrow> 'f Vec3f" where
  "cast_ray A ind orig dir spheres lights depth =
     fst (cast_ray_traced A ind orig dir spheres lights depth)"

section \<open>main: the pixel loop and the PPM output\<close>

text \<open>
  \<^verbatim>\<open>main\<close> fixes \<^verbatim>\<open>width = 800\<close>, \<^verbatim>\<open>height = 600\<close> and the scene; the model takes the
  two dimensions, the spheres and the lights as arguments, \<open>main_output\<close> below being the
  instance the source runs. The coordinates \<^verbatim>\<open>x\<close> and \<^verbatim>\<open>y\<close> of the primary ray of pixel
  \<open>(i, j)\<close> are computed in \<^verbatim>\<open>double\<close> with \<^verbatim>\<open>tan\<close> (lines 156 and 157) and then stored in a
  \<^verbatim>\<open>float\<close>; the model takes the resulting pair as the parameter \<open>cam i j\<close>.
\<close>

definition primary_dir :: "'f float_ops \<Rightarrow> 'f \<times> 'f \<Rightarrow> 'f Vec3f" where
  "primary_dir A xy = normalize A (Vec3f (fst xy) (snd xy) (flit A (- 1)))"

definition render_row ::
  "'f float_ops \<Rightarrow> (nat \<Rightarrow> nat \<Rightarrow> 'f \<times> 'f) \<Rightarrow> (nat \<Rightarrow> nat \<Rightarrow> int \<Rightarrow> 'f \<times> 'f) \<Rightarrow> 'f Sphere list
     \<Rightarrow> 'f Light list \<Rightarrow> nat \<Rightarrow> 'f Vec3f list \<Rightarrow> nat \<Rightarrow> 'f Vec3f list" where
  "render_row A cam ind spheres lights width framebuffer j =
     foldl (\<lambda>fb i. fb[i + j * width :=
                       cast_ray A (ind i j) (vzero A) (primary_dir A (cam i j)) spheres lights 0])
       framebuffer [0..<width]"

definition render ::
  "'f float_ops \<Rightarrow> (nat \<Rightarrow> nat \<Rightarrow> 'f \<times> 'f) \<Rightarrow> (nat \<Rightarrow> nat \<Rightarrow> int \<Rightarrow> 'f \<times> 'f) \<Rightarrow> 'f Sphere list
     \<Rightarrow> 'f Light list \<Rightarrow> nat \<Rightarrow> nat \<Rightarrow> 'f Vec3f list" where
  "render A cam ind spheres lights width height =
     foldl (render_row A cam ind spheres lights width)
       (replicate (width * height) (vzero A)) [0..<height]"

text \<open>\<^verbatim>\<open>ofs << width\<close> for an \<^verbatim>\<open>int\<close> that is not negative: its decimal digits.\<close>

fun show_nat :: "nat \<Rightarrow> string" where
  "show_nat n =
     (if n < 10 then [char_of (48 + n)] else show_nat (n div 10) @ [char_of (48 + n mod 10)])"

declare show_nat.simps [simp del]

text \<open>
  \<^verbatim>\<open>(char)(255 * max(0.f, min(1.f, c)))\<close>: the product is a \<^verbatim>\<open>float\<close>, the cast truncates it
  to an integer and keeps that integer's low eight bits, the byte the stream writes.
\<close>

definition channel :: "'f float_ops \<Rightarrow> 'f \<Rightarrow> char" where
  "channel A c =
     char_of (ftoi A (fmul A (flit A 255) (fmax A (flit A 0) (fmin A (flit A 1) c))))"

definition pixel_bytes :: "'f float_ops \<Rightarrow> 'f Vec3f \<Rightarrow> string" where
  "pixel_bytes A c = [channel A (vx c), channel A (vy c), channel A (vz c)]"

definition write_ppm :: "'f float_ops \<Rightarrow> nat \<Rightarrow> nat \<Rightarrow> 'f Vec3f list \<Rightarrow> string" where
  "write_ppm A width height framebuffer =
     ''P6'' @ [CHR 0x0A] @ show_nat width @ '' '' @ show_nat height @ [CHR 0x0A] @ ''255''
       @ [CHR 0x0A] @ concat (map (pixel_bytes A) framebuffer)"

definition render_ppm ::
  "'f float_ops \<Rightarrow> (nat \<Rightarrow> nat \<Rightarrow> 'f \<times> 'f) \<Rightarrow> (nat \<Rightarrow> nat \<Rightarrow> int \<Rightarrow> 'f \<times> 'f) \<Rightarrow> 'f Sphere list
     \<Rightarrow> 'f Light list \<Rightarrow> nat \<Rightarrow> nat \<Rightarrow> string" where
  "render_ppm A cam ind spheres lights width height =
     write_ppm A width height (render A cam ind spheres lights width height)"

definition mk_sphere ::
  "'f float_ops \<Rightarrow> real \<times> real \<times> real \<Rightarrow> real \<Rightarrow> real \<times> real \<times> real \<Rightarrow> real \<Rightarrow> real \<Rightarrow> 'f Sphere"
  where
  "mk_sphere A c r col spec rf =
     (case (c, col) of ((cx, cy, cz), (r', g', b')) \<Rightarrow>
        \<lparr>center = Vec3f (flit A cx) (flit A cy) (flit A cz), radius = flit A r,
         color = Vec3f (flit A r') (flit A g') (flit A b'), specular = flit A spec,
         reflective = flit A rf\<rparr>)"

definition mk_light :: "'f float_ops \<Rightarrow> real \<times> real \<times> real \<Rightarrow> real \<Rightarrow> 'f Light" where
  "mk_light A p i =
     (case p of (px, py, pz) \<Rightarrow>
        \<lparr>position = Vec3f (flit A px) (flit A py) (flit A pz), intensity = flit A i\<rparr>)"

definition main_spheres :: "'f float_ops \<Rightarrow> 'f Sphere list" where
  "main_spheres A =
     [mk_sphere A (- 3, 0, - 16) 2 (4 / 10, 4 / 10, 3 / 10) 50 (2 / 10),
      mk_sphere A (- 1, - (15 / 10), - 12) 2 (3 / 10, 1 / 10, 1 / 10) 10 (4 / 10),
      mk_sphere A (15 / 10, - (5 / 10), - 18) 3 (3 / 10, 4 / 10, 3 / 10) 100 (3 / 10),
      mk_sphere A (7, 5, - 18) 4 (1 / 10, 2 / 10, 4 / 10) 300 (1 / 10)]"

definition main_lights :: "'f float_ops \<Rightarrow> 'f Light list" where
  "main_lights A =
     [mk_light A (- 20, 20, 20) (15 / 10), mk_light A (30, 50, - 25) (18 / 10),
      mk_light A (30, 20, 30) (17 / 10)]"

definition main_output ::
  "'f float_ops \<Rightarrow> (nat \<Rightarrow> nat \<Rightarrow> 'f \<times> 'f) \<Rightarrow> (nat \<Rightarrow> nat \<Rightarrow> int \<Rightarrow> 'f \<times> 'f) \<Rightarrow> string" where
  "main_output A cam ind = render_ppm A cam ind (main_spheres A) (main_lights A) 800 600"

section \<open>Two arithmetics\<close>

text \<open>
  Exact arithmetic: the operations of the real numbers, with no rounding, no overflow and
  no NaN. It is the arithmetic the specification's formulas are written in. The claims
  about geometry and about the byte conversion are stated for it, and it supplies the
  concrete inputs of the witnesses. \<open>x / 0\<close> is \<open>0\<close> in HOL, and \<^verbatim>\<open>pow\<close> of a negative
  base is not modelled: no statement below evaluates \<open>exact\<close> at such a point.
\<close>

definition FLT_MAX :: real where
  "FLT_MAX = 340282346638528859811704183484516925440"

definition exact :: "real float_ops" where
  "exact =
     \<lparr>flit = (\<lambda>r. r), fadd = (+), fsub = (-), fmul = (*), fdiv = (/), fneg = uminus,
      fsqrt = sqrt, fpow = (\<lambda>b e. if e = 0 then 1 else b powr e), flt = (<),
      flt_max = FLT_MAX, ftoi = (\<lambda>r. if 0 \<le> r then \<lfloor>r\<rfloor> else \<lceil>r\<rceil>)\<rparr>"

text \<open>
  Extended arithmetic: the reals with the special values of IEEE 754, the two infinities
  and NaN, and with the standard's rules for them; finite operations are exact and there
  is one zero, the positive one. \<open>xpow\<close> follows the special cases the C library documents
  for \<^verbatim>\<open>pow\<close>. \<open>xtoi\<close> truncates towards zero; outside the range of a 32-bit \<^verbatim>\<open>int\<close>, where
  C++ leaves the conversion undefined, it gives the value the x86 conversion instruction
  returns.
\<close>

datatype xfloat = Finite real | PInf | MInf | NaN

fun xneg :: "xfloat \<Rightarrow> xfloat" where
  "xneg (Finite a) = Finite (- a)"
| "xneg PInf = MInf"
| "xneg MInf = PInf"
| "xneg NaN = NaN"

fun xadd :: "xfloat \<Rightarrow> xfloat \<Rightarrow> xfloat" where
  "xadd (Finite a) (Finite b) = Finite (a + b)"
| "xadd NaN b = NaN"
| "xadd a NaN = NaN"
| "xadd PInf MInf = NaN"
| "xadd MInf PInf = NaN"
| "xadd PInf b = PInf"
| "xadd a PInf = PInf"
| "xadd MInf b = MInf"
| "xadd a MInf = MInf"

definition xsub :: "xfloat \<Rightarrow> xfloat \<Rightarrow> xfloat" where
  "xsub a b = xadd a (xneg b)"

fun xmul :: "xfloat \<Rightarrow> xfloat \<Rightarrow> xfloat" where
  "xmul (Finite a) (Finite b) = Finite (a * b)"
| "xmul NaN b = NaN"
| "xmul a NaN = NaN"
| "xmul (Finite a) b = (if a = 0 then NaN else if (0 < a) = (b = PInf) then PInf else MInf)"
| "xmul a (Finite b) = (if b = 0 then NaN else if (0 < b) = (a = PInf) then PInf else MInf)"
| "xmul a b = (if a = b then PInf else MInf)"

fun xdiv :: "xfloat \<Rightarrow> xfloat \<Rightarrow> xfloat" where
  "xdiv (Finite a) (Finite b) =
     (if b \<noteq> 0 then Finite (a / b) else if a = 0 then NaN else if 0 < a then PInf else MInf)"
| "xdiv NaN b = NaN"
| "xdiv a NaN = NaN"
| "xdiv (Finite a) b = Finite 0"
| "xdiv a (Finite b) = (if (0 \<le> b) = (a = PInf) then PInf else MInf)"
| "xdiv a b = NaN"

fun xsqrt :: "xfloat \<Rightarrow> xfloat" where
  "xsqrt (Finite a) = (if 0 \<le> a then Finite (sqrt a) else NaN)"
| "xsqrt PInf = PInf"
| "xsqrt MInf = NaN"
| "xsqrt NaN = NaN"

fun xlt :: "xfloat \<Rightarrow> xfloat \<Rightarrow> bool" where
  "xlt (Finite a) (Finite b) \<longleftrightarrow> a < b"
| "xlt NaN b \<longleftrightarrow> False"
| "xlt a NaN \<longleftrightarrow> False"
| "xlt MInf b \<longleftrightarrow> b \<noteq> MInf"
| "xlt a PInf \<longleftrightarrow> a \<noteq> PInf"
| "xlt a b \<longleftrightarrow> False"

fun xpow :: "xfloat \<Rightarrow> xfloat \<Rightarrow> xfloat" where
  "xpow a (Finite b) =
     (if b = 0 then Finite 1
      else case a of
          NaN \<Rightarrow> NaN
        | Finite x \<Rightarrow>
            if x = 1 then Finite 1
            else if 0 < x then Finite (x powr b)
            else if x = 0 then (if 0 < b then Finite 0 else PInf)
            else if b = of_int \<lfloor>b\<rfloor>
              then Finite ((if odd \<lfloor>b\<rfloor> then - 1 else 1) * ((- x) powr b))
            else NaN
        | PInf \<Rightarrow> if 0 < b then PInf else Finite 0
        | MInf \<Rightarrow>
            if 0 < b then (if b = of_int \<lfloor>b\<rfloor> \<and> odd \<lfloor>b\<rfloor> then MInf else PInf)
            else Finite 0)"
| "xpow a NaN = (if a = Finite 1 then Finite 1 else NaN)"
| "xpow a PInf =
     (case a of
        NaN \<Rightarrow> NaN
      | Finite x \<Rightarrow> if \<bar>x\<bar> < 1 then Finite 0 else if \<bar>x\<bar> = 1 then Finite 1 else PInf
      | PInf \<Rightarrow> PInf
      | MInf \<Rightarrow> PInf)"
| "xpow a MInf =
     (case a of
        NaN \<Rightarrow> NaN
      | Finite x \<Rightarrow> if \<bar>x\<bar> < 1 then PInf else if \<bar>x\<bar> = 1 then Finite 1 else Finite 0
      | PInf \<Rightarrow> Finite 0
      | MInf \<Rightarrow> Finite 0)"

fun xtoi :: "xfloat \<Rightarrow> int" where
  "xtoi (Finite a) =
     (let n = (if 0 \<le> a then \<lfloor>a\<rfloor> else \<lceil>a\<rceil>)
      in if - 2147483648 \<le> n \<and> n < 2147483648 then n else - 2147483648)"
| "xtoi a = - 2147483648"

definition extended :: "xfloat float_ops" where
  "extended =
     \<lparr>flit = Finite, fadd = xadd, fsub = xsub, fmul = xmul, fdiv = xdiv, fneg = xneg,
      fsqrt = xsqrt, fpow = xpow, flt = xlt, flt_max = Finite FLT_MAX, ftoi = xtoi\<rparr>"

section \<open>Properties of the arithmetics\<close>

lemma exact_simps:
  "flit exact r = r" "fadd exact a b = a + b" "fsub exact a b = a - b"
  "fmul exact a b = a * b" "fdiv exact a b = a / b" "fneg exact a = - a"
  "fsqrt exact a = sqrt a" "flt exact a b \<longleftrightarrow> a < b" "flt_max exact = FLT_MAX"
  by (simp_all add: exact_def)

lemma flt_order_exact: "flt_order exact"
  by (auto simp: flt_order_def exact_simps)

lemma extended_simps:
  "flit extended r = Finite r" "fadd extended = xadd" "fsub extended = xsub"
  "fmul extended = xmul" "fdiv extended = xdiv" "fneg extended = xneg"
  "fsqrt extended = xsqrt" "flt extended = xlt" "flt_max extended = Finite FLT_MAX"
  by (simp_all add: extended_def)

lemma xlt_irrefl: "\<not> xlt a a"
  by (cases a) simp_all

lemma xlt_trans: "xlt a b \<Longrightarrow> xlt b c \<Longrightarrow> xlt a c"
  by (cases a; cases b; cases c) simp_all

lemma flt_order_extended: "flt_order extended"
  unfolding flt_order_def extended_simps using xlt_irrefl xlt_trans by blast

section \<open>Properties of Vec3f\<close>




section \<open>Properties of ray_intersect\<close>








section \<open>Properties of scene_intersect\<close>

text \<open>One iteration either leaves the loop state alone or replaces it as a whole.\<close>

lemma scan_step_cases:
  "scan_step A orig dir (d0, r0) s = (d0, r0) \<and>
     (\<forall>t. ray_intersect A s orig dir = Some t \<longrightarrow> \<not> flt A t d0)
   \<or> (\<exists>t. ray_intersect A s orig dir = Some t \<and> flt A t d0 \<and>
          scan_step A orig dir (d0, r0) s = (t, hit_data A orig dir s t))"
  by (cases "ray_intersect A s orig dir") (simp_all add: scan_step_def)

text \<open>
  The invariant of the scan, from any starting distance \<open>d0\<close>: either nothing was written
  and no sphere is hit below \<open>d0\<close>, or the state is the data of a sphere \<open>ss ! i\<close> hit at a
  distance \<open>t\<close> below \<open>d0\<close>, no sphere is hit below \<open>t\<close>, and no sphere before \<open>i\<close> is hit at
  \<open>t\<close>.
\<close>

lemma scene_loop_cases:
  assumes ord: "flt_order A"
  shows "scene_loop A orig dir ss (d0, r0) = (d0, r0) \<and>
           (\<forall>s\<in>set ss. \<forall>t. ray_intersect A s orig dir = Some t \<longrightarrow> \<not> flt A t d0)
       \<or> (\<exists>i<length ss. \<exists>t. ray_intersect A (ss ! i) orig dir = Some t \<and> flt A t d0 \<and>
             scene_loop A orig dir ss (d0, r0) = (t, hit_data A orig dir (ss ! i) t) \<and>
             (\<forall>j<length ss. \<forall>t'. ray_intersect A (ss ! j) orig dir = Some t' \<longrightarrow> \<not> flt A t' t) \<and>
             (\<forall>j<i. ray_intersect A (ss ! j) orig dir \<noteq> Some t))"
    (is "?keep ss d0 r0 \<or> ?upd ss d0 r0")
proof (induction ss arbitrary: d0 r0)
  case Nil
  show ?case by simp
next
  case (Cons s ss)
  from ord have irr: "\<And>a. \<not> flt A a a"
    and tr: "\<And>a b c. flt A a b \<Longrightarrow> flt A b c \<Longrightarrow> flt A a c"
    unfolding flt_order_def by blast+
  let ?R = "\<lambda>s. ray_intersect A s orig dir"
  from scan_step_cases [of A orig dir d0 r0 s] show ?case
  proof (elim disjE conjE exE)
    assume st: "scan_step A orig dir (d0, r0) s = (d0, r0)"
      and far: "\<forall>t. ?R s = Some t \<longrightarrow> \<not> flt A t d0"
    from Cons.IH [of d0 r0] show ?thesis
    proof (elim disjE conjE exE)
      assume "scene_loop A orig dir ss (d0, r0) = (d0, r0)"
        and "\<forall>s\<in>set ss. \<forall>t. ?R s = Some t \<longrightarrow> \<not> flt A t d0"
      with st far have "?keep (s # ss) d0 r0" by simp
      then show ?thesis ..
    next
      fix i t
      assume i: "i < length ss" and hit: "?R (ss ! i) = Some t" and lt: "flt A t d0"
        and res: "scene_loop A orig dir ss (d0, r0) = (t, hit_data A orig dir (ss ! i) t)"
        and least: "\<forall>j<length ss. \<forall>t'. ?R (ss ! j) = Some t' \<longrightarrow> \<not> flt A t' t"
        and first: "\<forall>j<i. ?R (ss ! j) \<noteq> Some t"
      have s_least: "\<forall>t'. ?R s = Some t' \<longrightarrow> \<not> flt A t' t"
        using far lt tr by blast
      have s_first: "?R s \<noteq> Some t" using far lt by blast
      have "Suc i < length (s # ss)" using i by simp
      moreover have "?R ((s # ss) ! Suc i) = Some t" using hit by simp
      moreover have "scene_loop A orig dir (s # ss) (d0, r0) =
          (t, hit_data A orig dir ((s # ss) ! Suc i) t)" using st res by simp
      moreover have "\<forall>j<length (s # ss). \<forall>t'. ?R ((s # ss) ! j) = Some t' \<longrightarrow> \<not> flt A t' t"
        using least s_least by (simp add: All_less_Suc2)
      moreover have "\<forall>j<Suc i. ?R ((s # ss) ! j) \<noteq> Some t"
        using first s_first by (simp add: All_less_Suc2)
      ultimately have "?upd (s # ss) d0 r0" using lt by blast
      then show ?thesis ..
    qed
  next
    fix t0
    assume hit0: "?R s = Some t0" and lt0: "flt A t0 d0"
      and st: "scan_step A orig dir (d0, r0) s = (t0, hit_data A orig dir s t0)"
    from Cons.IH [of t0 "hit_data A orig dir s t0"] show ?thesis
    proof (elim disjE conjE exE)
      assume res: "scene_loop A orig dir ss (t0, hit_data A orig dir s t0) =
          (t0, hit_data A orig dir s t0)"
        and far: "\<forall>s\<in>set ss. \<forall>t. ?R s = Some t \<longrightarrow> \<not> flt A t t0"
      have "0 < length (s # ss)" by simp
      moreover have "?R ((s # ss) ! 0) = Some t0" using hit0 by simp
      moreover have "scene_loop A orig dir (s # ss) (d0, r0) =
          (t0, hit_data A orig dir ((s # ss) ! 0) t0)" using st res by simp
      moreover have "\<forall>j<length (s # ss). \<forall>t'. ?R ((s # ss) ! j) = Some t' \<longrightarrow> \<not> flt A t' t0"
        using far hit0 irr by (auto simp: All_less_Suc2)
      moreover have "\<forall>j<0::nat. ?R ((s # ss) ! j) \<noteq> Some t0" by simp
      ultimately have "?upd (s # ss) d0 r0" using lt0 by blast
      then show ?thesis ..
    next
      fix i t
      assume i: "i < length ss" and hit: "?R (ss ! i) = Some t" and lt: "flt A t t0"
        and res: "scene_loop A orig dir ss (t0, hit_data A orig dir s t0) =
          (t, hit_data A orig dir (ss ! i) t)"
        and least: "\<forall>j<length ss. \<forall>t'. ?R (ss ! j) = Some t' \<longrightarrow> \<not> flt A t' t"
        and first: "\<forall>j<i. ?R (ss ! j) \<noteq> Some t"
      have s_least: "\<forall>t'. ?R s = Some t' \<longrightarrow> \<not> flt A t' t"
        using hit0 lt tr irr by auto
      have s_first: "?R s \<noteq> Some t" using hit0 lt irr by auto
      have "Suc i < length (s # ss)" using i by simp
      moreover have "?R ((s # ss) ! Suc i) = Some t" using hit by simp
      moreover have "flt A t d0" using lt lt0 by (rule tr)
      moreover have "scene_loop A orig dir (s # ss) (d0, r0) =
          (t, hit_data A orig dir ((s # ss) ! Suc i) t)" using st res by simp
      moreover have "\<forall>j<length (s # ss). \<forall>t'. ?R ((s # ss) ! j) = Some t' \<longrightarrow> \<not> flt A t' t"
        using least s_least by (simp add: All_less_Suc2)
      moreover have "\<forall>j<Suc i. ?R ((s # ss) ! j) \<noteq> Some t"
        using first s_first by (simp add: All_less_Suc2)
      ultimately have "?upd (s # ss) d0 r0" by blast
      then show ?thesis ..
    qed
  qed
qed

text \<open>
  What the scan leaves in the reference parameters does not depend on what they held
  before, unless it wrote nothing.
\<close>

lemma scan_step_refs:
  "scan_step A orig dir (d0, r) s = (d0, r) \<and> scan_step A orig dir (d0, r') s = (d0, r')
   \<or> scan_step A orig dir (d0, r) s = scan_step A orig dir (d0, r') s"
  by (cases "ray_intersect A s orig dir") (simp_all add: scan_step_def)

lemma scene_loop_refs:
  "scene_loop A orig dir ss (d0, r) = (d0, r) \<and> scene_loop A orig dir ss (d0, r') = (d0, r')
   \<or> scene_loop A orig dir ss (d0, r) = scene_loop A orig dir ss (d0, r')"
proof (induction ss arbitrary: d0 r r')
  case Nil
  show ?case by simp
next
  case (Cons s ss)
  from scan_step_refs [of A orig dir d0 r s r'] show ?case
  proof
    assume "scan_step A orig dir (d0, r) s = (d0, r) \<and> scan_step A orig dir (d0, r') s = (d0, r')"
    then show ?thesis using Cons.IH [of d0 r r'] by simp
  next
    assume "scan_step A orig dir (d0, r) s = scan_step A orig dir (d0, r') s"
    then show ?thesis by simp
  qed
qed

lemma scene_intersect_found_refs:
  "fst (scene_intersect A orig dir spheres r) = fst (scene_intersect A orig dir spheres r')"
  using scene_loop_refs [of A orig dir spheres "flt_max A" r r']
  by (auto simp: scene_intersect_def Let_def)

lemma scene_intersect_hit_refs:
  assumes "\<not> flt A (flt_max A) (flt_max A)"
    and "fst (scene_intersect A orig dir spheres r)"
  shows "snd (scene_intersect A orig dir spheres r) = snd (scene_intersect A orig dir spheres r')"
  using scene_loop_refs [of A orig dir spheres "flt_max A" r r'] assms
  by (auto simp: scene_intersect_def Let_def)

text \<open>
  C2, as the code has it. For every arithmetic whose \<^verbatim>\<open><\<close> is a strict order, every ray,
  every list of spheres and whatever the reference parameters hold before the call:
  \<^verbatim>\<open>scene_intersect\<close> reports a hit exactly when some sphere of the list is hit at a
  distance strictly below the sentinel \<^verbatim>\<open>numeric_limits<float>::max()\<close>. When it reports
  a hit, the data it leaves are those of a sphere \<open>spheres ! i\<close> hit at a distance \<open>t\<close> such
  that no sphere of the list is hit at a distance below \<open>t\<close> (the nearest hit), and no
  sphere before \<open>i\<close> in the list is hit at that same distance \<open>t\<close> (among equal distances
  the first scanned sphere supplies the data).
\<close>

theorem scene_intersect_nearest:
  assumes ord: "flt_order A"
  shows "(fst (scene_intersect A orig dir spheres refs) \<longleftrightarrow>
            (\<exists>s\<in>set spheres. \<exists>t. ray_intersect A s orig dir = Some t \<and> flt A t (flt_max A)))
       \<and> (fst (scene_intersect A orig dir spheres refs) \<longrightarrow>
            (\<exists>i<length spheres. \<exists>t.
               ray_intersect A (spheres ! i) orig dir = Some t \<and> flt A t (flt_max A) \<and>
               snd (scene_intersect A orig dir spheres refs) = hit_data A orig dir (spheres ! i) t \<and>
               (\<forall>j<length spheres. \<forall>t'.
                  ray_intersect A (spheres ! j) orig dir = Some t' \<longrightarrow> \<not> flt A t' t) \<and>
               (\<forall>j<i. ray_intersect A (spheres ! j) orig dir \<noteq> Some t)))"
proof -
  from ord have irr: "\<not> flt A (flt_max A) (flt_max A)" by (simp add: flt_order_def)
  from scene_loop_cases [OF ord, of orig dir spheres "flt_max A" refs] show ?thesis
  proof (elim disjE conjE exE)
    assume keep: "scene_loop A orig dir spheres (flt_max A, refs) = (flt_max A, refs)"
      and far: "\<forall>s\<in>set spheres. \<forall>t. ray_intersect A s orig dir = Some t \<longrightarrow> \<not> flt A t (flt_max A)"
    from keep irr have "\<not> fst (scene_intersect A orig dir spheres refs)"
      by (simp add: scene_intersect_def)
    with far show ?thesis by blast
  next
    fix i t
    assume i: "i < length spheres"
      and hit: "ray_intersect A (spheres ! i) orig dir = Some t" and lt: "flt A t (flt_max A)"
      and res: "scene_loop A orig dir spheres (flt_max A, refs) =
          (t, hit_data A orig dir (spheres ! i) t)"
      and least: "\<forall>j<length spheres. \<forall>t'.
          ray_intersect A (spheres ! j) orig dir = Some t' \<longrightarrow> \<not> flt A t' t"
      and first: "\<forall>j<i. ray_intersect A (spheres ! j) orig dir \<noteq> Some t"
    from res lt have found: "fst (scene_intersect A orig dir spheres refs)"
      and data: "snd (scene_intersect A orig dir spheres refs) = hit_data A orig dir (spheres ! i) t"
      by (simp_all add: scene_intersect_def)
    from i have "spheres ! i \<in> set spheres" by simp
    with hit lt have ex: "\<exists>s\<in>set spheres. \<exists>t. ray_intersect A s orig dir = Some t \<and> flt A t (flt_max A)"
      by blast
    from found ex i hit lt data least first show ?thesis by blast
  qed
qed

theorem scene_intersect_nearest_witness:
  "flt_order exact \<and>
   fst (scene_intersect exact (Vec3f 0 0 0) (Vec3f 0 0 (- 1))
     [\<lparr>center = Vec3f 0 0 (- 10), radius = 1, color = Vec3f 1 0 0, specular = 1, reflective = 0\<rparr>,
      \<lparr>center = Vec3f 0 0 (- 5), radius = 1, color = Vec3f 0 1 0, specular = 1, reflective = 0\<rparr>]
     \<lparr>o_hit = Vec3f 0 0 0, o_N = Vec3f 0 0 0, o_color = Vec3f 0 0 0, o_spec = 0, o_refl = 0\<rparr>) \<and>
   o_color (snd (scene_intersect exact (Vec3f 0 0 0) (Vec3f 0 0 (- 1))
     [\<lparr>center = Vec3f 0 0 (- 10), radius = 1, color = Vec3f 1 0 0, specular = 1, reflective = 0\<rparr>,
      \<lparr>center = Vec3f 0 0 (- 5), radius = 1, color = Vec3f 0 1 0, specular = 1, reflective = 0\<rparr>]
     \<lparr>o_hit = Vec3f 0 0 0, o_N = Vec3f 0 0 0, o_color = Vec3f 0 0 0, o_spec = 0, o_refl = 0\<rparr>))
     = Vec3f 0 1 0"
  using scene_intersect_nearest [OF flt_order_exact, of "Vec3f 0 0 0" "Vec3f 0 0 (- 1)"
     "[\<lparr>center = Vec3f 0 0 (- 10), radius = 1, color = Vec3f 1 0 0, specular = 1, reflective = 0\<rparr>,
      \<lparr>center = Vec3f 0 0 (- 5), radius = 1, color = Vec3f 0 1 0, specular = 1, reflective = 0\<rparr>]"
     "\<lparr>o_hit = Vec3f 0 0 0, o_N = Vec3f 0 0 0, o_color = Vec3f 0 0 0, o_spec = 0, o_refl = 0\<rparr>"]
    flt_order_exact
  by (simp add: scene_intersect_def scan_step_def ray_intersect_def hit_data_def exact_simps
      vsub_def vadd_def vscale_def dot_def Let_def FLT_MAX_def)

text \<open>
  The claim as the specification words it, "no hit exactly when no sphere in the list
  intersects the ray", fails at the sentinel. The sphere of radius 1 centred at
  \<open>(0, 0, -3e38)\<close> is hit by the ray from \<open>(0, 0, 3e38)\<close> along \<open>(0, 0, -1)\<close>:
  \<^verbatim>\<open>ray_intersect\<close> returns \<^verbatim>\<open>true\<close>, in exact arithmetic with the distance \<open>6e38 - 1\<close>.
  That distance is not below \<^verbatim>\<open>numeric_limits<float>::max()\<close>, about \<open>3.4e38\<close>, so
  \<^verbatim>\<open>scene_intersect\<close> reports no hit. In binary32 the subtraction \<^verbatim>\<open>center - orig\<close>
  overflows and the distance becomes a NaN; \<^verbatim>\<open>ray_intersect\<close> still returns \<^verbatim>\<open>true\<close>, the
  comparison \<^verbatim>\<open>t < dist\<close> is false, and \<^verbatim>\<open>scene_intersect\<close> reports no hit there as well.
\<close>

theorem scene_intersect_sentinel_counterexample:
  "ray_intersect exact
     \<lparr>center = Vec3f 0 0 (- 300000000000000000000000000000000000000), radius = 1,
      color = Vec3f 0 0 0, specular = 1, reflective = 0\<rparr>
     (Vec3f 0 0 300000000000000000000000000000000000000) (Vec3f 0 0 (- 1))
     = Some 599999999999999999999999999999999999999 \<and>
   \<not> fst (scene_intersect exact
     (Vec3f 0 0 300000000000000000000000000000000000000) (Vec3f 0 0 (- 1))
     [\<lparr>center = Vec3f 0 0 (- 300000000000000000000000000000000000000), radius = 1,
       color = Vec3f 0 0 0, specular = 1, reflective = 0\<rparr>]
     \<lparr>o_hit = Vec3f 0 0 0, o_N = Vec3f 0 0 0, o_color = Vec3f 0 0 0, o_spec = 0, o_refl = 0\<rparr>)"
  by (simp add: scene_intersect_def scan_step_def ray_intersect_def exact_simps
      vsub_def dot_def Let_def FLT_MAX_def)

text \<open>
  C10. When \<^verbatim>\<open>scene_intersect\<close> reports no hit, the five reference parameters hold after
  the call what they held before it, whatever that was; and \<^verbatim>\<open>cast_ray\<close> on that ray
  returns the background colour, a value in which none of the five occurs.
\<close>

theorem scene_intersect_miss_frame:
  assumes ord: "flt_order A"
    and miss: "\<not> fst (scene_intersect A orig dir spheres refs)"
  shows "snd (scene_intersect A orig dir spheres refs) = refs \<and>
         cast_ray A ind orig dir spheres lights depth = background A"
proof
  from ord have tr: "\<And>a b c. flt A a b \<Longrightarrow> flt A b c \<Longrightarrow> flt A a c"
    unfolding flt_order_def by blast
  from scene_loop_cases [OF ord, of orig dir spheres "flt_max A" refs]
  show "snd (scene_intersect A orig dir spheres refs) = refs"
  proof (elim disjE conjE exE)
    assume "scene_loop A orig dir spheres (flt_max A, refs) = (flt_max A, refs)"
    then show ?thesis by (simp add: scene_intersect_def)
  next
    fix i t
    assume "flt A t (flt_max A)"
      and "scene_loop A orig dir spheres (flt_max A, refs) =
          (t, hit_data A orig dir (spheres ! i) t)"
    then have "fst (scene_intersect A orig dir spheres refs)"
      by (simp add: scene_intersect_def)
    with miss show ?thesis by contradiction
  qed
  have "\<not> fst (scene_intersect A orig dir spheres (locals A (ind depth)))"
    using miss scene_intersect_found_refs [of A orig dir spheres refs "locals A (ind depth)"]
    by simp
  then show "cast_ray A ind orig dir spheres lights depth = background A"
    by (simp add: cast_ray_def cast_ray_traced.simps [of A ind orig dir spheres lights depth]
        Let_def)
qed

theorem scene_intersect_miss_frame_witness:
  "flt_order exact \<and>
   \<not> fst (scene_intersect exact (Vec3f 0 0 0) (Vec3f 1 0 0)
     [\<lparr>center = Vec3f 0 0 (- 5), radius = 1, color = Vec3f 1 0 0, specular = 1, reflective = 0\<rparr>]
     \<lparr>o_hit = Vec3f 1 2 3, o_N = Vec3f 4 5 6, o_color = Vec3f 7 8 9, o_spec = 10, o_refl = 11\<rparr>) \<and>
   snd (scene_intersect exact (Vec3f 0 0 0) (Vec3f 1 0 0)
     [\<lparr>center = Vec3f 0 0 (- 5), radius = 1, color = Vec3f 1 0 0, specular = 1, reflective = 0\<rparr>]
     \<lparr>o_hit = Vec3f 1 2 3, o_N = Vec3f 4 5 6, o_color = Vec3f 7 8 9, o_spec = 10, o_refl = 11\<rparr>)
     = \<lparr>o_hit = Vec3f 1 2 3, o_N = Vec3f 4 5 6, o_color = Vec3f 7 8 9, o_spec = 10, o_refl = 11\<rparr> \<and>
   cast_ray exact (\<lambda>d. (0, 0)) (Vec3f 0 0 0) (Vec3f 1 0 0)
     [\<lparr>center = Vec3f 0 0 (- 5), radius = 1, color = Vec3f 1 0 0, specular = 1, reflective = 0\<rparr>]
     [] 0 = Vec3f (2 / 10) (7 / 10) (8 / 10)"
proof -
  let ?ss = "[\<lparr>center = Vec3f 0 0 (- 5), radius = 1::real, color = Vec3f 1 0 0, specular = 1::real,
      reflective = 0::real\<rparr>]"
  let ?refs = "\<lparr>o_hit = Vec3f 1 2 3, o_N = Vec3f 4 5 6, o_color = Vec3f 7 8 9, o_spec = 10::real,
      o_refl = 11::real\<rparr>"
  have miss: "\<not> fst (scene_intersect exact (Vec3f 0 0 0) (Vec3f 1 0 0) ?ss ?refs)"
    by (simp add: scene_intersect_def scan_step_def ray_intersect_def exact_simps
        vsub_def dot_def Let_def FLT_MAX_def)
  from scene_intersect_miss_frame [OF flt_order_exact miss, of "\<lambda>d. (0, 0)" "[]" 0]
    flt_order_exact miss
  show ?thesis by (simp add: background_def exact_simps)
qed

section \<open>Properties of cast_ray\<close>




text \<open>
  The light loop sums, in list order and from 0, the terms of the lights that are not
  shadowed.
\<close>

lemma light_loop_sum:
  "light_loop A u spheres dir h ls acc =
     (foldl (\<lambda>a l. fadd A a (diffuse_term A h l)) (fst acc)
        (filter (\<lambda>l. \<not> shadowed A u spheres h l) ls),
      foldl (\<lambda>a l. fadd A a (specular_term A dir h l)) (snd acc)
        (filter (\<lambda>l. \<not> shadowed A u spheres h l) ls))"
  by (induction ls arbitrary: acc) (simp_all add: light_step_def)

text \<open>
  C4. On a hit at a depth of at most 4, the colour \<^verbatim>\<open>cast_ray\<close> returns is
  \<open>surfaceColor \<times> totalDiffuse \<times> (1 - reflectivity) + white \<times> totalSpecular \<times> 0.6 +
  reflectedColor \<times> reflectivity\<close>, where \<open>totalDiffuse\<close> sums
  \<open>intensity \<times> max(0, lightDir\<cdot>normal)\<close> and \<open>totalSpecular\<close> sums
  \<open>max(0, reflect(-lightDir, normal)\<cdot>rayDir)^specularExponent \<times> intensity\<close> over the lights
  whose shadow test reports no hit, \<open>reflectedColor\<close> is \<^verbatim>\<open>cast_ray\<close> at depth + 1 from the
  biased hit point along the normalised reflection of the ray, and
  \<open>reflect(I, N) = I - (N \<times> 2) \<times> (I\<cdot>N)\<close>. The operations associate as the source writes
  them.
\<close>

theorem cast_ray_radiance:
  assumes depth: "depth \<le> 4"
    and found: "fst (scene_intersect A orig dir spheres (locals A (ind depth)))"
  shows "cast_ray A ind orig dir spheres lights depth =
     (let h = snd (scene_intersect A orig dir spheres (locals A (ind depth)));
          normal = o_N h;
          biased = vadd A (o_hit h) (vscale A normal (flit A (1 / 1000)));
          lightDir = (\<lambda>l. normalize A (vsub A (position l) (o_hit h)));
          unoccluded =
            filter (\<lambda>l. \<not> fst (scene_intersect A biased (lightDir l) spheres
                                 (locals A (ind depth)))) lights;
          totalDiffuse =
            foldl (\<lambda>a l. fadd A a
                     (fmul A (intensity l) (fmax A (flit A 0) (dot A (lightDir l) normal))))
              (flit A 0) unoccluded;
          totalSpecular =
            foldl (\<lambda>a l. fadd A a
                     (fmul A
                        (fpow A
                           (fmax A (flit A 0)
                              (dot A (reflect A (vneg A (lightDir l)) normal) dir))
                           (o_spec h))
                        (intensity l)))
              (flit A 0) unoccluded;
          reflectedColor =
            cast_ray A ind biased (normalize A (reflect A dir normal)) spheres lights
              (depth + 1);
          white = Vec3f (flit A 1) (flit A 1) (flit A 1)
      in vadd A
           (vadd A
              (vscale A (vscale A (o_color h) totalDiffuse) (fsub A (flit A 1) (o_refl h)))
              (vscale A (vscale A white totalSpecular) (flit A (6 / 10))))
           (vscale A reflectedColor (o_refl h)))
   \<and> reflect A I N = vsub A I (vscale A (vscale A N (flit A 2)) (dot A I N))"
  using depth found
  by (simp add: cast_ray_def cast_ray_traced.simps [of A ind orig dir spheres lights depth]
      Let_def light_loop_sum combine_def shadowed_def light_dir_def diffuse_term_def
      specular_term_def reflect_def)

theorem cast_ray_radiance_witness:
  "(0::int) \<le> 4 \<and>
   fst (scene_intersect exact (Vec3f 0 0 0) (Vec3f 0 0 (- 1))
     [\<lparr>center = Vec3f 0 0 (- 5), radius = 1, color = Vec3f (1 / 2) (1 / 4) 0, specular = 50,
       reflective = 1 / 2\<rparr>]
     (locals exact (0, 0))) \<and>
   cast_ray exact (\<lambda>d. (0, 0)) (Vec3f 0 0 0) (Vec3f 0 0 (- 1))
     [\<lparr>center = Vec3f 0 0 (- 5), radius = 1, color = Vec3f (1 / 2) (1 / 4) 0, specular = 50,
       reflective = 1 / 2\<rparr>]
     [\<lparr>position = Vec3f 0 0 (- 3), intensity = 1\<rparr>] 0
   = Vec3f (35 / 100) (475 / 1000) (4 / 10)"
proof -
  let ?ss = "[\<lparr>center = Vec3f 0 0 (- 5), radius = 1::real, color = Vec3f (1 / 2) (1 / 4) 0,
      specular = 50::real, reflective = 1 / 2 :: real\<rparr>]"
  let ?ls = "[\<lparr>position = Vec3f 0 0 (- 3), intensity = 1::real\<rparr>]"
  note ev = scene_intersect_def scan_step_def ray_intersect_def hit_data_def exact_simps
    normalize_def reflect_def vsub_def vadd_def vscale_def vneg_def vzero_def dot_def Let_def
    FLT_MAX_def locals_def fmax_def
  have d: "(0::int) \<le> 4" by simp
  have found: "fst (scene_intersect exact (Vec3f 0 0 0) (Vec3f 0 0 (- 1)) ?ss
      (locals exact ((\<lambda>d::int. (0, 0)) 0)))"
    by (simp add: ev)
  have bg: "cast_ray exact (\<lambda>d. (0, 0)) (Vec3f 0 0 (- 3999 / 1000)) (Vec3f 0 0 1) ?ss ?ls 1
      = Vec3f (2 / 10) (7 / 10) (8 / 10)"
    by (simp add: cast_ray_def cast_ray_traced.simps [of exact _ _ _ _ _ 1] ev background_def)
  from cast_ray_radiance [OF d found, of ?ls] d found bg show ?thesis
    by (simp add: ev exact_def)
qed








section \<open>Properties of the rendered image\<close>

text \<open>
  The colour \<^verbatim>\<open>cast_ray\<close> returns does not depend on the indeterminate contents of its
  uninitialised locals, and neither does the framebuffer.
\<close>

lemma shadowed_refs: "shadowed A u spheres h l = shadowed A u' spheres h l"
  unfolding shadowed_def by (rule scene_intersect_found_refs)

lemma light_loop_refs:
  "light_loop A u spheres dir h ls acc = light_loop A u' spheres dir h ls acc"
proof (induction ls arbitrary: acc)
  case Nil
  show ?case by simp
next
  case (Cons l ls)
  have "light_step A u spheres dir h acc l = light_step A u' spheres dir h acc l"
    by (simp add: light_step_def shadowed_refs [of A u spheres h l u'])
  then show ?case using Cons.IH by simp
qed

lemma cast_ray_traced_refs:
  assumes irr: "\<not> flt A (flt_max A) (flt_max A)"
  shows "cast_ray_traced A ind orig dir spheres lights depth =
         cast_ray_traced A ind' orig dir spheres lights depth"
  using irr
proof (induction A ind orig dir spheres lights depth rule: cast_ray_traced.induct)
  case (1 A ind orig dir spheres lights depth)
  note irr = "1.prems"
  let ?r = "scene_intersect A orig dir spheres (locals A (ind depth))"
  let ?r' = "scene_intersect A orig dir spheres (locals A (ind' depth))"
  note unfold = cast_ray_traced.simps [of A ind orig dir spheres lights depth]
    cast_ray_traced.simps [of A ind' orig dir spheres lights depth]
  have found: "fst ?r = fst ?r'" by (rule scene_intersect_found_refs)
  show ?case
  proof (cases "4 < depth")
    case True
    then show ?thesis by (simp add: unfold)
  next
    case deep: False
    show ?thesis
    proof (cases "fst ?r")
      case False
      with deep found show ?thesis by (simp add: unfold Let_def)
    next
      case True
      have refs: "snd ?r = snd ?r'" using irr True by (rule scene_intersect_hit_refs)
      have loop: "light_loop A (ind depth) spheres dir (snd ?r) lights (flit A 0, flit A 0) =
          light_loop A (ind' depth) spheres dir (snd ?r) lights (flit A 0, flit A 0)"
        by (rule light_loop_refs)
      have rec: "cast_ray_traced A ind
            (vadd A (o_hit (snd ?r)) (vscale A (o_N (snd ?r)) (flit A (1 / 1000))))
            (normalize A (reflect A dir (o_N (snd ?r)))) spheres lights (depth + 1) =
          cast_ray_traced A ind'
            (vadd A (o_hit (snd ?r)) (vscale A (o_N (snd ?r)) (flit A (1 / 1000))))
            (normalize A (reflect A dir (o_N (snd ?r)))) spheres lights (depth + 1)"
        using deep True irr by (intro "1.IH") simp_all
      show ?thesis
        using deep True found refs [symmetric] loop rec by (simp add: unfold Let_def)
    qed
  qed
qed

lemma cast_ray_refs:
  assumes "flt_order A"
  shows "cast_ray A ind orig dir spheres lights depth =
         cast_ray A ind' orig dir spheres lights depth"
proof -
  from assms have "\<not> flt A (flt_max A) (flt_max A)" by (simp add: flt_order_def)
  then show ?thesis
    unfolding cast_ray_def by (simp add: cast_ray_traced_refs [of A ind _ _ _ _ _ ind'])
qed

lemma render_row_refs:
  assumes "flt_order A"
  shows "render_row A cam ind spheres lights width fb j =
         render_row A cam ind' spheres lights width fb j"
proof -
  have "(\<lambda>(fb :: 'a Vec3f list) i. fb[i + j * width :=
            cast_ray A (ind i j) (vzero A) (primary_dir A (cam i j)) spheres lights 0]) =
        (\<lambda>fb i. fb[i + j * width :=
            cast_ray A (ind' i j) (vzero A) (primary_dir A (cam i j)) spheres lights 0])"
  proof (intro ext)
    fix fb :: "'a Vec3f list" and i
    show "fb[i + j * width :=
            cast_ray A (ind i j) (vzero A) (primary_dir A (cam i j)) spheres lights 0] =
          fb[i + j * width :=
            cast_ray A (ind' i j) (vzero A) (primary_dir A (cam i j)) spheres lights 0]"
      using cast_ray_refs [OF assms, of "ind i j" "vzero A" "primary_dir A (cam i j)" spheres
          lights 0 "ind' i j"]
      by simp
  qed
  then show ?thesis by (simp add: render_row_def)
qed

text \<open>
  C8. Rendering is deterministic. The model is a function of the arithmetic, the camera,
  the spheres, the lights and the two dimensions, and of one thing more: the indeterminate
  values \<open>ind\<close> of the uninitialised locals, the only input that can differ between two
  runs of the program on the same scene. The output bytes do not depend on it. The scene
  is passed along unchanged to every call; no function of the model returns a new one.
\<close>

theorem render_deterministic:
  assumes ord: "flt_order A"
  shows "render_ppm A cam ind spheres lights width height =
         render_ppm A cam ind' spheres lights width height"
proof -
  have "render_row A cam ind spheres lights width fb j =
        render_row A cam ind' spheres lights width fb j" for fb j
    by (rule render_row_refs [OF ord])
  then have "render_row A cam ind spheres lights width =
             render_row A cam ind' spheres lights width"
    by (intro ext)
  then have "render A cam ind spheres lights width height =
             render A cam ind' spheres lights width height"
    by (simp add: render_def)
  then show ?thesis by (simp add: render_ppm_def)
qed

text \<open>
  The output of \<^verbatim>\<open>main\<close> in the extended arithmetic, where a NaN can arise, for two
  different contents of the uninitialised locals.
\<close>

theorem render_deterministic_witness:
  "flt_order extended \<and>
   main_output extended (\<lambda>i j. (Finite 0, Finite 0)) (\<lambda>i j d. (Finite 0, Finite 0)) =
   main_output extended (\<lambda>i j. (Finite 0, Finite 0)) (\<lambda>i j d. (NaN, PInf))"
  using render_deterministic [OF flt_order_extended, of "\<lambda>i j. (Finite 0, Finite 0)"
      "\<lambda>i j d. (Finite 0, Finite 0)" "main_spheres extended" "main_lights extended" 800 600
      "\<lambda>i j d. (NaN, PInf)"] flt_order_extended
  by (simp add: main_output_def)

lemma length_render_row:
  "length (render_row A cam ind spheres lights width fb j) = length fb"
proof -
  have "length (foldl (\<lambda>fb i. fb[i + j * width := f i]) fb idx) = length fb" for f idx
    by (induction idx arbitrary: fb) simp_all
  then show ?thesis by (simp add: render_row_def)
qed

lemma length_render: "length (render A cam ind spheres lights width height) = width * height"
proof -
  have "length (foldl (render_row A cam ind spheres lights width) fb js) = length fb" for fb js
    by (induction js arbitrary: fb) (simp_all add: length_render_row)
  then show ?thesis by (simp add: render_def)
qed

lemma length_pixels: "length (concat (map (pixel_bytes A) fb)) = 3 * length fb"
  by (induction fb) (simp_all add: pixel_bytes_def)

lemma clamp_exact: "fmax exact (flit exact 0) (fmin exact (flit exact 1) c) = max 0 (min 1 c)"
  by (simp add: fmax_def fmin_def exact_simps max_def min_def)

lemma channel_exact:
  "channel exact c = char_of \<lfloor>255 * max 0 (min 1 c)\<rfloor>"
proof -
  have "0 \<le> 255 * max 0 (min 1 c)" by simp
  then have "ftoi exact (255 * max 0 (min 1 c)) = \<lfloor>255 * max 0 (min 1 c)\<rfloor>"
    by (simp add: exact_def)
  then show ?thesis
    unfolding channel_def clamp_exact by (simp add: exact_simps)
qed

lemma channel_range:
  "0 \<le> \<lfloor>255 * max 0 (min 1 c)\<rfloor> \<and> \<lfloor>255 * max 0 (min 1 (c::real))\<rfloor> \<le> 255"
proof -
  have "0 \<le> 255 * max 0 (min 1 c)" and "255 * max 0 (min 1 c) \<le> 255" by simp_all
  then show ?thesis by (simp add: floor_le_iff le_floor_iff) 
qed

text \<open>
  C7. In exact arithmetic the byte written for a channel \<open>c\<close> is the integer part
  \<open>\<lfloor>255 \<times> max 0 (min 1 c)\<rfloor>\<close>, a value from 0 to 255: the cast truncates, it does not round.
  For every arithmetic the output is the header \<^verbatim>\<open>P6\<close>, newline, the width in decimal,
  a space, the height in decimal, newline, \<^verbatim>\<open>255\<close>, newline, followed by three bytes, red,
  green and blue, for each of the \<open>width \<times> height\<close> entries of the framebuffer.
\<close>

theorem ppm_bytes:
  "channel exact c = char_of \<lfloor>255 * max 0 (min 1 c)\<rfloor>
   \<and> 0 \<le> \<lfloor>255 * max 0 (min 1 c)\<rfloor> \<and> \<lfloor>255 * max 0 (min 1 c)\<rfloor> \<le> 255
   \<and> render_ppm A cam ind spheres lights width height =
       ''P6'' @ [CHR 0x0A] @ show_nat width @ '' '' @ show_nat height @ [CHR 0x0A] @ ''255''
         @ [CHR 0x0A]
         @ concat (map (\<lambda>p. [channel A (vx p), channel A (vy p), channel A (vz p)])
             (render A cam ind spheres lights width height))
   \<and> length (render A cam ind spheres lights width height) = width * height
   \<and> length (concat (map (\<lambda>p. [channel A (vx p), channel A (vy p), channel A (vz p)])
         (render A cam ind spheres lights width height))) = 3 * (width * height)"
proof -
  have px: "pixel_bytes A = (\<lambda>p. [channel A (vx p), channel A (vy p), channel A (vz p)])"
    by (intro ext) (simp add: pixel_bytes_def)
  have "render_ppm A cam ind spheres lights width height =
       ''P6'' @ [CHR 0x0A] @ show_nat width @ '' '' @ show_nat height @ [CHR 0x0A] @ ''255''
         @ [CHR 0x0A]
         @ concat (map (\<lambda>p. [channel A (vx p), channel A (vy p), channel A (vz p)])
             (render A cam ind spheres lights width height))"
    by (simp add: render_ppm_def write_ppm_def px)
  moreover have "length (concat (map (\<lambda>p. [channel A (vx p), channel A (vy p), channel A (vz p)])
         (render A cam ind spheres lights width height))) = 3 * (width * height)"
    using length_pixels [of A "render A cam ind spheres lights width height"]
    by (simp add: px length_render)
  ultimately show ?thesis using channel_exact [of c] channel_range [of c] length_render [of A cam ind spheres lights width height]
    by blast
qed

lemma digit_chars:
  "char_of (48::nat) = CHR ''0''" "char_of (54::nat) = CHR ''6''" "char_of (56::nat) = CHR ''8''"
  by code_simp+

lemma byte_chars:
  "char_of (0::int) = CHR 0x00" "char_of (254::int) = CHR 0xFE" "char_of (255::int) = CHR 0xFF"
  by code_simp+

lemma show_nat_800: "show_nat 800 = ''800''"
  by (simp add: show_nat.simps [of 800] show_nat.simps [of 80] show_nat.simps [of 8] digit_chars)

lemma show_nat_600: "show_nat 600 = ''600''"
  by (simp add: show_nat.simps [of 600] show_nat.simps [of 60] show_nat.simps [of 6] digit_chars)

text \<open>
  The channel 0.999 is written as 254, not 255. The output of \<^verbatim>\<open>main\<close> starts with the
  fifteen bytes \<^verbatim>\<open>P6\<close>, newline, \<^verbatim>\<open>800 600\<close>, newline, \<^verbatim>\<open>255\<close>, newline, and 1440000 bytes
  of pixel data follow.
\<close>

theorem ppm_bytes_witness:
  "channel exact (999 / 1000) = CHR 0xFE \<and> channel exact 2 = CHR 0xFF \<and> channel exact (- 1) = CHR 0x00
   \<and> take 15 (main_output exact (\<lambda>i j. (0, 0)) (\<lambda>i j d. (0, 0))) =
       [CHR ''P'', CHR ''6'', CHR 0x0A, CHR ''8'', CHR ''0'', CHR ''0'', CHR '' '', CHR ''6'',
        CHR ''0'', CHR ''0'', CHR 0x0A, CHR ''2'', CHR ''5'', CHR ''5'', CHR 0x0A]
   \<and> length (main_output exact (\<lambda>i j. (0, 0)) (\<lambda>i j d. (0, 0))) = 15 + 3 * (800 * 600)"
  using ppm_bytes [of "999 / 1000" exact "\<lambda>i j. (0, 0)" "\<lambda>i j d. (0, 0)" "main_spheres exact"
      "main_lights exact" 800 600]
    ppm_bytes [of 2 exact "\<lambda>i j. (0, 0)" "\<lambda>i j d. (0, 0)" "main_spheres exact"
      "main_lights exact" 800 600]
    ppm_bytes [of "- 1" exact "\<lambda>i j. (0, 0)" "\<lambda>i j d. (0, 0)" "main_spheres exact"
      "main_lights exact" 800 600]
  by (simp add: main_output_def show_nat_800 show_nat_600 byte_chars)

section \<open>Degenerate scenes\<close>

text \<open>
  X1. With no sphere in the scene every ray returns the background colour, at every depth and
  whatever the lights: an empty scene is not an error.
\<close>

theorem empty_scene_background:
  assumes "flt_order A"
  shows "cast_ray A ind orig dir [] lights depth = background A"
proof -
  from assms have "\<not> flt A (flt_max A) (flt_max A)" by (simp add: flt_order_def)
  then have "\<not> fst (scene_intersect A orig dir [] (locals A (ind depth)))"
    by (simp add: scene_intersect_def)
  then show ?thesis
    by (simp add: cast_ray_def cast_ray_traced.simps [of A ind orig dir "[]" lights depth] Let_def)
qed

theorem empty_scene_background_witness:
  "flt_order extended \<and>
   cast_ray extended (\<lambda>d. (NaN, NaN)) (Vec3f (Finite 0) (Finite 0) (Finite 0))
     (Vec3f (Finite 0) (Finite 0) (Finite (- 1))) []
     [\<lparr>position = Vec3f (Finite 0) (Finite 0) (Finite 1), intensity = Finite 1\<rparr>] 0
   = Vec3f (Finite (2 / 10)) (Finite (7 / 10)) (Finite (8 / 10))"
  using empty_scene_background [OF flt_order_extended, of "\<lambda>d. (NaN, NaN)"
      "Vec3f (Finite 0) (Finite 0) (Finite 0)" "Vec3f (Finite 0) (Finite 0) (Finite (- 1))"
      "[\<lparr>position = Vec3f (Finite 0) (Finite 0) (Finite 1), intensity = Finite 1\<rparr>]" 0]
    flt_order_extended
  by (simp add: background_def extended_simps)

text \<open>
  X2. With no light in the scene a hit has both totals at 0, so the colour returned is
  \<open>color \<times> 0 \<times> (1 - refl) + white \<times> 0 \<times> 0.6 + reflectedColor \<times> refl\<close>: an empty light list
  is not an error.
\<close>

theorem no_lights_radiance:
  assumes "depth \<le> 4"
    and "fst (scene_intersect A orig dir spheres (locals A (ind depth)))"
  shows "cast_ray A ind orig dir spheres [] depth =
     (let h = snd (scene_intersect A orig dir spheres (locals A (ind depth)));
          reflectedColor =
            cast_ray A ind (vadd A (o_hit h) (vscale A (o_N h) (flit A (1 / 1000))))
              (normalize A (reflect A dir (o_N h))) spheres [] (depth + 1)
      in vadd A
           (vadd A
              (vscale A (vscale A (o_color h) (flit A 0)) (fsub A (flit A 1) (o_refl h)))
              (vscale A (vscale A (Vec3f (flit A 1) (flit A 1) (flit A 1)) (flit A 0))
                 (flit A (6 / 10))))
           (vscale A reflectedColor (o_refl h)))"
  using assms
  by (simp add: cast_ray_def cast_ray_traced.simps [of A ind orig dir spheres "[]" depth]
      Let_def combine_def)

theorem no_lights_radiance_witness:
  "(0::int) \<le> 4 \<and>
   fst (scene_intersect exact (Vec3f 0 0 0) (Vec3f 0 0 (- 1))
     [\<lparr>center = Vec3f 0 0 (- 5), radius = 1, color = Vec3f (1 / 2) (1 / 4) 0, specular = 50,
       reflective = 1 / 2\<rparr>]
     (locals exact (0, 0))) \<and>
   cast_ray exact (\<lambda>d. (0, 0)) (Vec3f 0 0 0) (Vec3f 0 0 (- 1))
     [\<lparr>center = Vec3f 0 0 (- 5), radius = 1, color = Vec3f (1 / 2) (1 / 4) 0, specular = 50,
       reflective = 1 / 2\<rparr>]
     [] 0
   = Vec3f (1 / 10) (35 / 100) (4 / 10)"
proof -
  let ?ss = "[\<lparr>center = Vec3f 0 0 (- 5), radius = 1::real, color = Vec3f (1 / 2) (1 / 4) 0,
      specular = 50::real, reflective = 1 / 2 :: real\<rparr>]"
  note ev = scene_intersect_def scan_step_def ray_intersect_def hit_data_def exact_simps
    normalize_def reflect_def vsub_def vadd_def vscale_def vzero_def dot_def Let_def
    FLT_MAX_def locals_def
  have d: "(0::int) \<le> 4" by simp
  have found: "fst (scene_intersect exact (Vec3f 0 0 0) (Vec3f 0 0 (- 1)) ?ss
      (locals exact ((\<lambda>d::int. (0, 0)) 0)))"
    by (simp add: ev)
  have bg: "cast_ray exact (\<lambda>d. (0, 0)) (Vec3f 0 0 (- 3999 / 1000)) (Vec3f 0 0 1) ?ss [] 1
      = Vec3f (2 / 10) (7 / 10) (8 / 10)"
    by (simp add: cast_ray_def cast_ray_traced.simps [of exact _ _ _ _ _ 1] ev background_def)
  from no_lights_radiance [OF d found] d found bg show ?thesis
    by (simp add: ev)
qed

end
